theory Spec2Isabelle
  imports Main "HOL-Library.Word"
begin

unbundle bit_operations_syntax

section \<open>The blob store of containerfs: data model\<close>

text \<open>
  The development follows the Go package \<open>storage\<close> (the blob store) and the follower side
  of the repair protocol in \<open>datanode/blob_repair.go\<close>.

  Conventions of the embedding.
  \<^item> Go's \<open>uint64\<close>, \<open>uint32\<close> and \<open>byte\<close> are \<open>64 word\<close>, \<open>32 word\<close> and \<open>8 word\<close>.
    Go's \<open>int\<close> and \<open>int64\<close> are \<open>int\<close>, for values of the 64-bit range; a conversion
    \<open>uint32(x)\<close> or \<open>uint64(x)\<close> is \<open>word_of_int\<close>, \<open>int(w)\<close> and \<open>int64(w)\<close> of an
    unsigned word are \<open>uint\<close>, and \<open>int(w)\<close> of a \<open>uint64\<close> is \<open>sint\<close>.
  \<^item> A slice is a list whose length is also its capacity.
  \<^item> A data file is the list of its bytes; an index file is the list of the records
    appended to it, oldest first.
  \<^item> A function returns the updated store together with its Go results; the result
    \<open>err\<close> is an \<open>error option\<close>, \<open>None\<close> for \<open>nil\<close>.
  \<^item> A run-time panic (a slice bound out of range, a nil dereference) is the value
    \<open>Panic\<close>.
  \<^item> The operating system's answers are a parameter \<open>io\<close>: each file operation can
    fail, and a failed operation leaves its file as it was. The network is a parameter
    \<open>net\<close>: whether a connection is obtained, whether the request is sent, and the
    response packets that arrive; reading past the last of them is a receive error.
  \<^item> \<open>compactLock\<close> is a boolean: \<open>True\<close> when another thread (the compactor) holds it.
    \<open>TryLock\<close> followed by the deferred \<open>Unlock\<close> leaves it as it was. The commit lock
    is only taken in shared mode by the functions below and has no field.
\<close>

type_synonym byte = "8 word"

datatype error =
    ErrorFileNotFound
  | ErrorAgain
  | ErrObjectSmaller
  | ErrorObjNotFound
  | ErrorParamMismatch
  | ErrorNoAvaliFile
  | ErrorNoUnAvaliFile
  | IOError
  | InvalidOffset
  | ExceedSyncLastOid
  | Annotated error
  | Panic

record io =
  statFails :: bool
  writeAtFails :: bool
  idxAppendFails :: bool
  readAtFails :: bool

definition io_ok :: io where
  "io_ok = \<lparr>statFails = False, writeAtFails = False, idxAppendFails = False,
             readAtFails = False\<rparr>"

text \<open>\<open>storage.FileInfo\<close>, as the watermark functions fill it: the chunk id and, in
  \<open>Size\<close>, the chunk's last object id.\<close>

record FileInfo =
  FileId :: int
  Size :: "64 word"

text \<open>The fields of a repair response packet that the follower reads.\<close>

record Packet =
  Offset :: int
  Data :: "byte list"

record net =
  getConnFails :: bool
  writeToConnFails :: bool
  responses :: "Packet list"

record Object =
  Oid :: "64 word"
  Offset :: "32 word"
  Size :: "32 word"
  Crc :: "32 word"

text \<open>Modelled from the spec: the constants \<open>TombstoneFileSize\<close> (the reserved size of a
  deleted object, \<open>u32::MAX\<close>) and \<open>ObjectHeaderSize\<close> (20 bytes) are declared outside
  the files at hand.\<close>

definition TombstoneFileSize :: "32 word" where
  "TombstoneFileSize = 0xFFFFFFFF"

definition ObjectHeaderSize :: nat where
  "ObjectHeaderSize = 20"

definition TinyChunkCount :: int where
  "TinyChunkCount = 10"

definition CompactThreshold :: int where
  "CompactThreshold = 40"

text \<open>Modelled from the spec: the index tree (\<open>ObjectTree\<close>) is declared outside the files at
  hand. It is an in-memory map from object id to record, the index file behind it, and the
  two byte counters.\<close>

record ObjectTree =
  idxFile :: "Object list"
  entries :: "64 word \<rightharpoonup> Object"
  fileBytes :: "64 word"
  deleteBytes :: "64 word"

text \<open>Modelled from the spec: the type \<open>Chunk\<close> is declared outside the files at hand; these
  are the fields the store's functions use.\<close>

record Chunk =
  dataFile :: "byte list"
  tree :: ObjectTree
  lastOid :: "64 word"
  syncLastOid :: "64 word"
  compactLock :: bool

record BlobStore =
  chunks :: "int \<rightharpoonup> Chunk"
  availChunkCh :: "int list"
  unavailChunkCh :: "int list"
  storeSize :: int
  chunkSize :: int

section \<open>The index tree\<close>

text \<open>Modelled from the spec: \<open>appendToIdxFile\<close> serialises one record and appends it to the
  index file; it returns an I/O error when the append fails.\<close>

definition appendToIdxFile :: "io \<Rightarrow> ObjectTree \<Rightarrow> Object \<Rightarrow> ObjectTree \<times> error option" where
  "appendToIdxFile env t ob =
     (if idxAppendFails env then (t, Some IOError)
      else (t\<lparr>idxFile := idxFile t @ [ob]\<rparr>, None))"

text \<open>Modelled from the spec: \<open>set\<close> inserts or overwrites the in-memory entry and appends the
  record to the index file; a live size is added to \<open>fileBytes\<close>, and the live size of an
  entry it shadows is added to \<open>deleteBytes\<close>.\<close>

definition tree_set ::
  "io \<Rightarrow> ObjectTree \<Rightarrow> 64 word \<Rightarrow> 32 word \<Rightarrow> 32 word \<Rightarrow> 32 word \<Rightarrow> ObjectTree \<times> error option" where
  "tree_set env t oid off sz crc =
     (let ob = \<lparr>Oid = oid, Offset = off, Size = sz, Crc = crc\<rparr>;
          shadowed = (case entries t oid of
                        None \<Rightarrow> 0
                      | Some r \<Rightarrow> if Size r = TombstoneFileSize then 0 else ucast (Size r));
          t1 = t\<lparr>entries := (entries t)(oid \<mapsto> ob),
                 fileBytes := (if sz = TombstoneFileSize then fileBytes t
                               else fileBytes t + ucast sz),
                 deleteBytes := deleteBytes t + shadowed\<rparr>
      in appendToIdxFile env t1 ob)"

text \<open>Modelled from the spec: \<open>get\<close> returns nothing when the id is absent or when its current
  record is a tombstone.\<close>

definition tree_get :: "ObjectTree \<Rightarrow> 64 word \<Rightarrow> Object option" where
  "tree_get t oid =
     (case entries t oid of
        None \<Rightarrow> None
      | Some r \<Rightarrow> if Size r = TombstoneFileSize then None else Some r)"

text \<open>Modelled from the spec: \<open>WalkIndexFile\<close> replays the records of the index file in append
  order and calls the function on each; it stops at the first record on which the function
  returns an error. The Go callback updates variables of its closure; here it takes and
  returns them.\<close>

fun WalkIndexFile ::
  "Object list \<Rightarrow> (Object \<Rightarrow> 'a \<Rightarrow> 'a \<times> error option) \<Rightarrow> 'a \<Rightarrow> 'a \<times> error option" where
  "WalkIndexFile [] fn acc = (acc, None)"
| "WalkIndexFile (r # rs) fn acc =
     (case fn r acc of
        (acc', None) \<Rightarrow> WalkIndexFile rs fn acc'
      | (acc', Some e) \<Rightarrow> (acc', Some e))"

section \<open>The blob store\<close>

text \<open>Modelled from the spec: \<open>NewChunk\<close> is declared outside the files at hand; on a fresh
  directory it opens an empty data file and an empty index.\<close>

definition NewChunk :: Chunk where
  "NewChunk =
     \<lparr>dataFile = [],
      tree = \<lparr>idxFile = [], entries = Map.empty, fileBytes = 0, deleteBytes = 0\<rparr>,
      lastOid = 0, syncLastOid = 0, compactLock = False\<rparr>"

text \<open>Go's integer division truncates towards zero.\<close>

definition go_div :: "int \<Rightarrow> int \<Rightarrow> int" where
  "go_div a b = sgn a * sgn b * (\<bar>a\<bar> div \<bar>b\<bar>)"

text \<open>\<open>NewBlobStore\<close> on a fresh directory: chunks 1 to 10, every id in the unavailable
  queue.\<close>

definition NewBlobStore :: "int \<Rightarrow> BlobStore" where
  "NewBlobStore sz =
     \<lparr>chunks = (\<lambda>i. if 1 \<le> i \<and> i \<le> TinyChunkCount then Some NewChunk else None),
      availChunkCh = [],
      unavailChunkCh = [1, 2, 3, 4, 5, 6, 7, 8, 9, 10],
      storeSize = sz,
      chunkSize = go_div sz TinyChunkCount\<rparr>"

definition WriteDeleteDentry ::
  "io \<Rightarrow> BlobStore \<Rightarrow> 64 word \<Rightarrow> int \<Rightarrow> 32 word \<Rightarrow> BlobStore \<times> error option" where
  "WriteDeleteDentry env s objectId chunkId crc =
     (case chunks s chunkId of
        None \<Rightarrow> (s, Some ErrorFileNotFound)
      | Some c \<Rightarrow>
          if compactLock c then (s, Some ErrorAgain)
          else if statFails env then (s, Some IOError)
          else
            (let ob = \<lparr>Oid = objectId, Offset = word_of_nat (length (dataFile c)),
                       Size = TombstoneFileSize, Crc = crc\<rparr>;
                 r = appendToIdxFile env (tree c) ob;
                 c1 = c\<lparr>tree := fst r\<rparr>;
                 c2 = (if snd r = None \<and> lastOid c1 < objectId
                       then c1\<lparr>lastOid := objectId\<rparr> else c1)
             in (s\<lparr>chunks := (chunks s)(chunkId \<mapsto> c2)\<rparr>, snd r)))"

definition Write ::
  "io \<Rightarrow> BlobStore \<Rightarrow> 32 word \<Rightarrow> 64 word \<Rightarrow> int \<Rightarrow> byte list \<Rightarrow> 32 word
    \<Rightarrow> BlobStore \<times> error option" where
  "Write env s fileId objectId sz data crc =
     (let chunkId = uint fileId in
      case chunks s chunkId of
        None \<Rightarrow> (s, Some ErrorFileNotFound)
      | Some c \<Rightarrow>
          if compactLock c then (s, Some ErrorAgain)
          else if objectId < lastOid c then (s, Some ErrObjectSmaller)
          else if statFails env then (s, Some IOError)
          else
            (let newOffset = int (length (dataFile c)) in
             if sz < 0 then (s, Some Panic)
             else if int (length data) < sz then (s, Some Panic)
             else if writeAtFails env then (s, Some IOError)
             else
               (let c1 = c\<lparr>dataFile := dataFile c @ take (nat sz) data\<rparr>;
                    r = tree_set env (tree c1) objectId (word_of_int newOffset)
                          (word_of_int sz) crc;
                    c2 = c1\<lparr>tree := fst r\<rparr>;
                    c3 = (if snd r = None \<and> lastOid c2 < objectId
                          then c2\<lparr>lastOid := objectId\<rparr> else c2)
                in (s\<lparr>chunks := (chunks s)(chunkId \<mapsto> c3)\<rparr>, snd r))))"

text \<open>\<open>Read\<close> returns the buffer as the call leaves it, the crc and the error.\<close>

definition Read ::
  "io \<Rightarrow> BlobStore \<Rightarrow> 32 word \<Rightarrow> int \<Rightarrow> int \<Rightarrow> byte list
    \<Rightarrow> byte list \<times> 32 word \<times> error option" where
  "Read env s fileId offset sz nbuf =
     (let chunkId = uint fileId;
          objectId = (word_of_int offset :: 64 word) in
      case chunks s chunkId of
        None \<Rightarrow> (nbuf, 0, Some ErrorFileNotFound)
      | Some c \<Rightarrow>
          if lastOid c < objectId then (nbuf, 0, Some ErrorFileNotFound)
          else if statFails env then (nbuf, 0, Some IOError)
          else
            (case tree_get (tree c) objectId of
               None \<Rightarrow> (nbuf, 0, Some ErrorObjNotFound)
             | Some ob \<Rightarrow>
                 if uint (Size ob) = sz then
                   (if int (length (dataFile c)) < uint (Offset ob) + sz
                    then (nbuf, 0, Some ErrorParamMismatch)
                    else if int (length nbuf) < sz then (nbuf, 0, Some Panic)
                    else if readAtFails env then (nbuf, 0, Some IOError)
                    else (take (nat sz) (drop (unat (Offset ob)) (dataFile c))
                            @ drop (nat sz) nbuf, Crc ob, None))
                 else (nbuf, 0, Some ErrorParamMismatch)))"

definition GetWatermark :: "BlobStore \<Rightarrow> 64 word \<Rightarrow> error + FileInfo" where
  "GetWatermark s fileId =
     (let chunkId = sint fileId in
      case chunks s chunkId of
        None \<Rightarrow> Inl ErrorFileNotFound
      | Some c \<Rightarrow> Inr \<lparr>FileId = chunkId, Size = lastOid c\<rparr>)"

text \<open>A receive on a channel inside \<open>select\<close> with a \<open>default\<close> arm takes the head of the
  queue when there is one and runs the default arm otherwise.\<close>

definition GetAvailChunk :: "BlobStore \<Rightarrow> BlobStore \<times> int \<times> error option" where
  "GetAvailChunk s =
     (case availChunkCh s of
        chunkId # rest \<Rightarrow> (s\<lparr>availChunkCh := rest\<rparr>, chunkId, None)
      | [] \<Rightarrow> (s, 0, Some ErrorNoAvaliFile))"

text \<open>In \<open>GetChunkForWrite\<close> both arms of the \<open>select\<close> return, so the loop body runs at most
  once, and only when \<open>chLen\<close> is positive; otherwise the function returns its named results
  as they were initialised.\<close>

definition GetChunkForWrite :: "BlobStore \<Rightarrow> BlobStore \<times> int \<times> error option" where
  "GetChunkForWrite s =
     (let chLen = length (availChunkCh s) in
      if 0 < chLen then
        (case availChunkCh s of
           chunkId # rest \<Rightarrow> (s\<lparr>availChunkCh := rest\<rparr>, chunkId, None)
         | [] \<Rightarrow> (s, - 1, Some ErrorNoAvaliFile))
      else (s, 0, None))"

definition GetDelObjects :: "BlobStore \<Rightarrow> 32 word \<Rightarrow> BlobStore \<times> 64 word list" where
  "GetDelObjects s fileId =
     (case chunks s (uint fileId) of
        None \<Rightarrow> (s, [])
      | Some c \<Rightarrow>
          (let syncLast = lastOid c;
               c1 = c\<lparr>syncLastOid := syncLast\<rparr>;
               r = WalkIndexFile (idxFile (tree c1))
                     (\<lambda>ob objects.
                        if syncLast < Oid ob then (objects, Some ExceedSyncLastOid)
                        else if Size ob = TombstoneFileSize then (objects @ [Oid ob], None)
                        else (objects, None))
                     []
           in (s\<lparr>chunks := (chunks s)(uint fileId \<mapsto> c1)\<rparr>, fst r)))"

text \<open>The claim about \<open>GetDelObjects\<close> in its own words, for comparison: the object ids, at
  most \<open>syncLastOid\<close>, whose last record in the index file is a tombstone.\<close>

definition lastRecord :: "Object list \<Rightarrow> 64 word \<Rightarrow> Object option" where
  "lastRecord idx oid =
     (case filter (\<lambda>r. Oid r = oid) idx of [] \<Rightarrow> None | r # rs \<Rightarrow> Some (last (r # rs)))"

definition GetDelObjects_spec :: "Object list \<Rightarrow> 64 word \<Rightarrow> 64 word list" where
  "GetDelObjects_spec idx syncLast =
     filter (\<lambda>oid. oid \<le> syncLast \<and>
                   (case lastRecord idx oid of
                      None \<Rightarrow> False
                    | Some r \<Rightarrow> Size r = TombstoneFileSize))
       (remdups (map Oid idx))"

text \<open>The quotient \<open>float64(deleteBytes) / float64(fileBytes)\<close> is computed in IEEE 754
  double precision, with its rounding, NaN and infinities. Its value is outside the
  model: the floating-point division of two counters is a parameter \<open>fdiv\<close> of
  \<open>IsReadyToCompact\<close>, of any result type.\<close>

text \<open>\<open>IsReadyToCompact\<close> dereferences the chunk without a check (``make sure chunkID is
  valid''): an absent chunk is a nil dereference.\<close>

definition IsReadyToCompact ::
  "(64 word \<Rightarrow> 64 word \<Rightarrow> 'f) \<Rightarrow> BlobStore \<Rightarrow> int \<Rightarrow> int \<Rightarrow> error + (bool \<times> 'f)" where
  "IsReadyToCompact fdiv s chunkID thresh =
     (let thresh1 = (if thresh < 0 then CompactThreshold else thresh) in
      case chunks s chunkID of
        None \<Rightarrow> Inl Panic
      | Some c \<Rightarrow>
          (let objects = tree c;
               deletePercent = fdiv (deleteBytes objects) (fileBytes objects);
               maxChunkSize = go_div (storeSize s) TinyChunkCount in
           if fileBytes objects
                < (word_of_int maxChunkSize * word_of_int CompactThreshold) div 100
           then Inr (False, deletePercent)
           else if deleteBytes objects < (fileBytes objects * word_of_int thresh1) div 100
           then Inr (False, deletePercent)
           else Inr (True, deletePercent)))"

text \<open>The trigger in the claim's own words, over the integers, for comparison.\<close>

definition IsReadyToCompact_spec :: "nat \<Rightarrow> nat \<Rightarrow> int \<Rightarrow> int \<Rightarrow> bool" where
  "IsReadyToCompact_spec F D storeSz thresh =
     (let t = (if thresh < 0 then 40 else thresh);
          M = storeSz div 10 in
      (M * 40) div 100 \<le> int F \<and> (int F * t) div 100 \<le> int D)"

section \<open>Operations between a write and a read\<close>

text \<open>The calls on a store, among those above, that neither delete an object nor compact
  a chunk, each with its arguments; \<open>run_ops\<close> runs a sequence of them and keeps the
  store. \<open>writes_object fileId oid\<close> holds of a \<open>Write\<close> of that object id to that chunk.\<close>

datatype store_op =
    DoWrite io "32 word" "64 word" int "byte list" "32 word"
  | DoRead io "32 word" int int "byte list"
  | DoGetDelObjects "32 word"
  | DoGetAvailChunk
  | DoGetChunkForWrite

fun run_op :: "BlobStore \<Rightarrow> store_op \<Rightarrow> BlobStore" where
  "run_op s (DoWrite env fileId objectId sz data crc) = fst (Write env s fileId objectId sz data crc)"
| "run_op s (DoRead env fileId offset sz nbuf) = s"
| "run_op s (DoGetDelObjects fileId) = fst (GetDelObjects s fileId)"
| "run_op s DoGetAvailChunk = fst (GetAvailChunk s)"
| "run_op s DoGetChunkForWrite = fst (GetChunkForWrite s)"

definition run_ops :: "BlobStore \<Rightarrow> store_op list \<Rightarrow> BlobStore" where
  "run_ops s ops = foldl run_op s ops"



section \<open>The follower side of repair\<close>

text \<open>Modelled from the spec: \<open>Object.Unmarshal\<close> is declared outside the files at hand. A
  header is 20 bytes, big-endian: the object id in 8 bytes, then offset, size and crc in 4
  bytes each.\<close>

definition be_word :: "byte list \<Rightarrow> 'a::len word" where
  "be_word bs = foldl (\<lambda>acc b. push_bit 8 acc OR ucast b) 0 bs"

definition Unmarshal :: "byte list \<Rightarrow> Object" where
  "Unmarshal bs =
     \<lparr>Oid = be_word (take 8 bs),
      Offset = be_word (take 4 (drop 8 bs)),
      Size = be_word (take 4 (drop 12 bs)),
      Crc = be_word (take 4 (drop 16 bs))\<rparr>"

text \<open>\<open>crc32.ChecksumIEEE\<close> of Go's standard library: the reflected CRC-32 with polynomial
  \<open>0xEDB88320\<close>, initial value and final complement \<open>0xFFFFFFFF\<close>, bit by bit.\<close>

definition crc_bit :: "32 word \<Rightarrow> 32 word" where
  "crc_bit x = (if x AND 1 = 1 then drop_bit 1 x XOR 0xEDB88320 else drop_bit 1 x)"

definition crc_byte :: "32 word \<Rightarrow> byte \<Rightarrow> 32 word" where
  "crc_byte c b = (crc_bit ^^ 8) (c XOR ucast b)"

definition ChecksumIEEE :: "byte list \<Rightarrow> 32 word" where
  "ChecksumIEEE bs = NOT (foldl crc_byte 0xFFFFFFFF bs)"

text \<open>\<open>errors.Annotatef\<close> of the library \<open>github.com/juju/errors\<close> wraps an error in a
  message; given \<open>nil\<close> it returns \<open>nil\<close>. Messages are not modelled.\<close>

definition Annotatef :: "error option \<Rightarrow> error option" where
  "Annotatef err = (case err of None \<Rightarrow> None | Some e \<Rightarrow> Some (Annotated e))"

text \<open>The loop of \<open>applyRepairBlobObjects\<close>, with its variables \<open>offset\<close> and
  \<open>applyObjectId\<close> as arguments. The result \<open>err\<close> is \<open>nil\<close> at the head of every
  iteration. \<open>Write\<close> is called with a slice of exactly \<open>o.Size\<close> bytes, so it cannot
  panic here.\<close>

function applyLoop ::
  "io \<Rightarrow> BlobStore \<Rightarrow> int \<Rightarrow> byte list \<Rightarrow> 64 word \<Rightarrow> nat \<Rightarrow> 64 word
    \<Rightarrow> BlobStore \<times> error option" where
  "applyLoop env s blobfileId data endObjectId offset applyObjectId =
     (if length data < offset + ObjectHeaderSize then (s, None)
      else if endObjectId \<le> applyObjectId then (s, None)
      else
        (let ob = Unmarshal (take ObjectHeaderSize (drop offset data));
             offset1 = offset + ObjectHeaderSize;
             d = (if Size ob = TombstoneFileSize
                  then WriteDeleteDentry env s (Oid ob) blobfileId (Crc ob)
                  else (s, None));
             s1 = fst d;
             err = snd d
         in if err \<noteq> None then (s1, Annotatef err)
            else if length data < offset1 + unat (Size ob) then (s1, Annotatef err)
            else
              (let ndata = take (unat (Size ob)) (drop offset1 data);
                   offset2 = offset1 + unat (Size ob);
                   ncrc = ChecksumIEEE ndata
               in if ncrc \<noteq> Crc ob then (s1, Annotatef err)
                  else
                    (let w = Write env s1 (word_of_int blobfileId) (Oid ob)
                               (uint (Size ob)) ndata (Crc ob)
                     in if snd w \<noteq> None then (fst w, Annotatef (snd w))
                        else applyLoop env (fst w) blobfileId data endObjectId offset2 (Oid ob)))))"
  by pat_completeness auto
termination
  by (relation "measure (\<lambda>(env, s, blobfileId, data, endObjectId, offset, applyObjectId).
                  length data - offset)")
     (auto simp: ObjectHeaderSize_def)

definition applyRepairBlobObjects ::
  "io \<Rightarrow> BlobStore \<Rightarrow> int \<Rightarrow> byte list \<Rightarrow> 64 word \<Rightarrow> BlobStore \<times> error option" where
  "applyRepairBlobObjects env s blobfileId data endObjectId =
     applyLoop env s blobfileId data endObjectId 0 0"

text \<open>The loop of \<open>streamRepairBlobObjects\<close>, over the response packets still to
  arrive.\<close>

fun repairLoop :: "io \<Rightarrow> BlobStore \<Rightarrow> FileInfo \<Rightarrow> Packet list \<Rightarrow> BlobStore \<times> error option" where
  "repairLoop env s remote pkts =
     (case GetWatermark s (word_of_int (FileId remote)) of
        Inl e \<Rightarrow> (s, Some (Annotated e))
      | Inr localInfo \<Rightarrow>
          if FileInfo.Size remote \<le> FileInfo.Size localInfo then (s, None)
          else
            (case pkts of
               [] \<Rightarrow> (s, Some (Annotated IOError))
             | request # rest \<Rightarrow>
                 (let newLastOid = (word_of_int (Packet.Offset request) :: 64 word) in
                  if (word_of_int (FileId remote) :: 64 word) < newLastOid
                  then (s, Some InvalidOffset)
                  else
                    (let a = applyRepairBlobObjects env s (FileId remote)
                               (Data request) newLastOid
                     in if snd a = None then repairLoop env (fst a) remote rest
                        else (fst a, Annotatef (snd a))))))"

definition streamRepairBlobObjects ::
  "io \<Rightarrow> net \<Rightarrow> BlobStore \<Rightarrow> FileInfo \<Rightarrow> BlobStore \<times> error option" where
  "streamRepairBlobObjects env nt s remote =
     (case GetWatermark s (word_of_int (FileId remote)) of
        Inl e \<Rightarrow> (s, Some (Annotated e))
      | Inr localInfo \<Rightarrow>
          if getConnFails nt then (s, Some (Annotated IOError))
          else if writeToConnFails nt then (s, Some (Annotated IOError))
          else repairLoop env s remote (responses nt))"

section \<open>Example inputs\<close>

text \<open>The bytes of ``hello'' and of ``a'', and two repair payloads: a tombstone header for
  object 1 followed by object 2 with body ``a'' and its right checksum; and object 1 with
  body ``a'' under a header whose crc field is 0.\<close>

definition helloBytes :: "byte list" where
  "helloBytes = [0x68, 0x65, 0x6C, 0x6C, 0x6F]"

definition tombThenLive :: "byte list" where
  "tombThenLive =
     [0, 0, 0, 0, 0, 0, 0, 1,  0, 0, 0, 0,  0xFF, 0xFF, 0xFF, 0xFF,  0, 0, 0, 0,
      0, 0, 0, 0, 0, 0, 0, 2,  0, 0, 0, 0,  0, 0, 0, 1,  0xE8, 0xB7, 0xBE, 0x43,  0x61]"

definition badCrc :: "byte list" where
  "badCrc =
     [0, 0, 0, 0, 0, 0, 0, 1,  0, 0, 0, 0,  0, 0, 0, 1,  0, 0, 0, 0,  0x61]"

text \<open>Objects 1 and 2, each with body ``a'' and its right checksum.\<close>

definition twoObjects :: "byte list" where
  "twoObjects =
     [0, 0, 0, 0, 0, 0, 0, 1,  0, 0, 0, 0,  0, 0, 0, 1,  0xE8, 0xB7, 0xBE, 0x43,  0x61,
      0, 0, 0, 0, 0, 0, 0, 2,  0, 0, 0, 0,  0, 0, 0, 1,  0xE8, 0xB7, 0xBE, 0x43,  0x61]"

definition netWith :: "Packet list \<Rightarrow> net" where
  "netWith ps = \<lparr>getConnFails = False, writeToConnFails = False, responses = ps\<rparr>"

text \<open>Chunk 1 with 100 live and 50 deleted bytes; chunk 1 with 64 live bytes and none
  deleted; and the store after a tombstone for object 5 and then a write of object 5 to
  chunk 1.\<close>

definition halfDeleted :: BlobStore where
  "halfDeleted =
     (NewBlobStore 1000)\<lparr>chunks := (chunks (NewBlobStore 1000))(1 \<mapsto>
        NewChunk\<lparr>tree := (tree NewChunk)\<lparr>fileBytes := 100, deleteBytes := 50\<rparr>\<rparr>)\<rparr>"

definition noneDeleted :: BlobStore where
  "noneDeleted =
     (NewBlobStore 1000)\<lparr>chunks := (chunks (NewBlobStore 1000))(1 \<mapsto>
        NewChunk\<lparr>tree := (tree NewChunk)\<lparr>fileBytes := 64, deleteBytes := 0\<rparr>\<rparr>)\<rparr>"

definition deletedThenRewritten :: BlobStore where
  "deletedThenRewritten =
     fst (Write io_ok (fst (WriteDeleteDentry io_ok (NewBlobStore 1000) 5 1 0)) 1 5 1 [0x61]
            0xE8B7BE43)"

text \<open>The store after ``hello'' has been written as object 1 of chunk 1, and the store
  after \<open>2^32\<close> zero bytes have been written as object 1 of chunk 1.\<close>

definition afterHello :: BlobStore where
  "afterHello = fst (Write io_ok (NewBlobStore 1000) 1 1 5 helloBytes 0x3610A686)"

definition fourGiB :: BlobStore where
  "fourGiB = fst (Write io_ok (NewBlobStore 1000) 1 1 4294967296 (replicate 4294967296 0) 7)"

section \<open>Auxiliary facts\<close>


lemma unat32_of_nat: "n < 4294967296 \<Longrightarrow> unat (word_of_nat n :: 32 word) = n"
  by (simp add: unat_of_nat take_bit_nat_eq_self)

lemma uint32_of_nat: "n < 4294967296 \<Longrightarrow> uint (word_of_nat n :: 32 word) = int n"
  by (simp add: uint_nat unat32_of_nat)

lemma io_ok_sel [simp]:
  "statFails io_ok = False" "writeAtFails io_ok = False"
  "idxAppendFails io_ok = False" "readAtFails io_ok = False"
  by (simp_all add: io_ok_def)

lemma NewBlobStore_chunks:
  "1 \<le> i \<Longrightarrow> i \<le> 10 \<Longrightarrow> chunks (NewBlobStore n) i = Some NewChunk"
  by (simp add: NewBlobStore_def TinyChunkCount_def)

lemma ChecksumIEEE_a: "ChecksumIEEE [0x61] = 0xE8B7BE43"
  by code_simp

lemma tree_set_ok:
  "\<not> idxAppendFails env \<Longrightarrow>
   tree_set env t oid off sz crc =
     (t\<lparr>entries := (entries t)(oid \<mapsto> \<lparr>Oid = oid, Offset = off, Size = sz, Crc = crc\<rparr>),
        fileBytes := (if sz = TombstoneFileSize then fileBytes t else fileBytes t + ucast sz),
        deleteBytes := deleteBytes t +
          (case entries t oid of None \<Rightarrow> 0
           | Some r \<Rightarrow> if Size r = TombstoneFileSize then 0 else ucast (Size r)),
        idxFile := idxFile t @ [\<lparr>Oid = oid, Offset = off, Size = sz, Crc = crc\<rparr>]\<rparr>, None)"
  by (simp add: tree_set_def appendToIdxFile_def Let_def)

lemma tree_set_None_iff: "snd (tree_set env t oid off sz crc) = None \<longleftrightarrow> \<not> idxAppendFails env"
  by (simp add: tree_set_def appendToIdxFile_def Let_def)

lemma tree_get_after_set:
  "snd (tree_set env t oid off sz crc) = None \<Longrightarrow>
   tree_get (fst (tree_set env t oid off sz crc)) oid =
     (if sz = TombstoneFileSize then None
      else Some \<lparr>Oid = oid, Offset = off, Size = sz, Crc = crc\<rparr>)"
  by (simp add: tree_set_None_iff tree_set_ok tree_get_def)

text \<open>What a successful \<open>Write\<close> has checked and done.\<close>

lemma Write_successD:
  assumes "Write env s fileId oid sz data crc = (s1, None)"
  shows "\<exists>c. chunks s (uint fileId) = Some c \<and> \<not> compactLock c \<and> lastOid c \<le> oid
           \<and> 0 \<le> sz \<and> sz \<le> int (length data)
           \<and> s1 = s\<lparr>chunks := (chunks s)(uint fileId \<mapsto>
                 c\<lparr>dataFile := dataFile c @ take (nat sz) data,
                   tree := fst (tree_set env (tree c) oid (word_of_nat (length (dataFile c)))
                                  (word_of_int sz) crc),
                   lastOid := oid\<rparr>)\<rparr>
           \<and> snd (tree_set env (tree c) oid (word_of_nat (length (dataFile c)))
                                  (word_of_int sz) crc) = None"
proof (cases "chunks s (uint fileId)")
  case None
  with assms show ?thesis by (simp add: Write_def)
next
  case (Some c)
  with assms show ?thesis
    by (auto simp: Write_def Let_def not_less split: if_splits dest: order_antisym)
qed

text \<open>When a \<open>Write\<close> succeeds.\<close>

lemma Write_ok:
  assumes "chunks s (uint fileId) = Some c" "\<not> compactLock c" "lastOid c \<le> oid"
    and "\<not> statFails env" "\<not> writeAtFails env" "\<not> idxAppendFails env"
    and "0 \<le> sz" "sz \<le> int (length data)"
  shows "Write env s fileId oid sz data crc =
           (s\<lparr>chunks := (chunks s)(uint fileId \<mapsto>
                 c\<lparr>dataFile := dataFile c @ take (nat sz) data,
                   tree := fst (tree_set env (tree c) oid (word_of_nat (length (dataFile c)))
                                  (word_of_int sz) crc),
                   lastOid := oid\<rparr>)\<rparr>, None)"
  using assms
  by (auto simp: Write_def Let_def not_less tree_set_None_iff dest: order_antisym)

lemma Write_fresh:
  assumes "1 \<le> uint fileId" "uint fileId \<le> 10" "0 \<le> sz" "sz \<le> int (length data)"
  shows "snd (Write io_ok (NewBlobStore n) fileId oid sz data crc) = None"
  using assms
  by (subst Write_ok [where c = NewChunk])
     (simp_all add: NewBlobStore_chunks NewChunk_def)






section \<open>Write followed by Read\<close>




text \<open>A further \<open>Write\<close> of the same object id to the same chunk is accepted and replaces
  the index entry: the \<open>Read\<close> then returns the later body and crc.\<close>

lemma Write_rewrite_Read:
  "Read io_ok (run_ops afterHello [DoWrite io_ok 1 1 5 [1, 2, 3, 4, 5] 8]) 1 1 5
     [0, 0, 0, 0, 0, 9] = ([1, 2, 3, 4, 5, 9], 8, None)"
  by (simp add: run_ops_def afterHello_def Write_def Read_def Let_def NewBlobStore_chunks
        NewChunk_def tree_set_def appendToIdxFile_def tree_get_def TombstoneFileSize_def
        helloBytes_def)


lemma word_le_succ:
  fixes x :: "'a::len word"
  assumes "x + 1 \<noteq> 0"
  shows "x \<le> x + 1"
proof -
  from assms have "1 + x \<noteq> 0" by (simp add: add.commute)
  then have "unat (1 + x) = Suc (unat x)" by (rule unatSuc)
  then show ?thesis by (simp add: word_le_nat_alt add.commute)
qed

section \<open>Stale object ids\<close>

text \<open>
  Claim C2, as amended. After a successful \<open>Write\<close> of object id \<open>oid\<close> to a chunk, the
  chunk's \<open>lastOid\<close> is \<open>oid\<close>. A further \<open>Write\<close> to that chunk with a strictly smaller
  id returns \<open>ErrObjectSmaller\<close> and leaves the store as it was. A further \<open>Write\<close> with
  the same id is not rejected as \<open>ErrObjectSmaller\<close>. A further \<open>Write\<close> with \<open>oid + 1\<close>,
  when that does not wrap around to 0, the size is within the data and no I/O error
  occurs, succeeds and sets \<open>lastOid\<close> to \<open>oid + 1\<close>.
\<close>

theorem Write_stale_oid:
  assumes wr: "Write env s fileId oid sz data crc = (s1, None)"
  shows "(\<exists>c1. chunks s1 (uint fileId) = Some c1 \<and> lastOid c1 = oid)
       \<and> (oid' < oid \<longrightarrow>
            Write env' s1 fileId oid' sz' data' crc' = (s1, Some ErrObjectSmaller))
       \<and> snd (Write env' s1 fileId oid sz' data' crc') \<noteq> Some ErrObjectSmaller
       \<and> (oid + 1 \<noteq> 0 \<and> 0 \<le> sz' \<and> sz' \<le> int (length data')
            \<and> \<not> statFails env' \<and> \<not> writeAtFails env' \<and> \<not> idxAppendFails env' \<longrightarrow>
            (\<exists>s2 c2. Write env' s1 fileId (oid + 1) sz' data' crc' = (s2, None)
                     \<and> chunks s2 (uint fileId) = Some c2 \<and> lastOid c2 = oid + 1))"
proof -
  from Write_successD [OF wr] obtain c where
    free: "\<not> compactLock c"
    and s1: "s1 = s\<lparr>chunks := (chunks s)(uint fileId \<mapsto>
                 c\<lparr>dataFile := dataFile c @ take (nat sz) data,
                   tree := fst (tree_set env (tree c) oid (word_of_nat (length (dataFile c)))
                                  (word_of_int sz) crc),
                   lastOid := oid\<rparr>)\<rparr>"
    by blast
  define c1 where "c1 = c\<lparr>dataFile := dataFile c @ take (nat sz) data,
                   tree := fst (tree_set env (tree c) oid (word_of_nat (length (dataFile c)))
                                  (word_of_int sz) crc),
                   lastOid := oid\<rparr>"
  have ch: "chunks s1 (uint fileId) = Some c1"
    by (simp add: s1 c1_def)
  have last: "lastOid c1 = oid" and free1: "\<not> compactLock c1"
    using free by (simp_all add: c1_def)
  have a: "\<exists>c1. chunks s1 (uint fileId) = Some c1 \<and> lastOid c1 = oid"
    using ch last by blast
  have b: "oid' < oid \<longrightarrow>
            Write env' s1 fileId oid' sz' data' crc' = (s1, Some ErrObjectSmaller)"
    using ch last free1 by (simp add: Write_def)
  have c: "snd (Write env' s1 fileId oid sz' data' crc') \<noteq> Some ErrObjectSmaller"
    using ch last free1
    by (simp add: Write_def Let_def tree_set_def appendToIdxFile_def)
  have d: "oid + 1 \<noteq> 0 \<and> 0 \<le> sz' \<and> sz' \<le> int (length data')
            \<and> \<not> statFails env' \<and> \<not> writeAtFails env' \<and> \<not> idxAppendFails env' \<longrightarrow>
            (\<exists>s2 c2. Write env' s1 fileId (oid + 1) sz' data' crc' = (s2, None)
                     \<and> chunks s2 (uint fileId) = Some c2 \<and> lastOid c2 = oid + 1)"
  proof
    assume h: "oid + 1 \<noteq> 0 \<and> 0 \<le> sz' \<and> sz' \<le> int (length data')
            \<and> \<not> statFails env' \<and> \<not> writeAtFails env' \<and> \<not> idxAppendFails env'"
    then have le: "lastOid c1 \<le> oid + 1"
      unfolding last by (simp add: word_le_succ)
    from Write_ok [OF ch free1 le, of env' sz' data' crc'] h
    show "\<exists>s2 c2. Write env' s1 fileId (oid + 1) sz' data' crc' = (s2, None)
                     \<and> chunks s2 (uint fileId) = Some c2 \<and> lastOid c2 = oid + 1"
      by simp
  qed
  from a b c d show ?thesis by blast
qed


lemma Write_a_fresh:
  "Write io_ok (NewBlobStore 1000) 1 1 1 [0x61] 7
     = (fst (Write io_ok (NewBlobStore 1000) 1 1 1 [0x61] 7), None)"
proof -
  have "snd (Write io_ok (NewBlobStore 1000) 1 1 1 [0x61] 7) = None"
    by (rule Write_fresh) simp_all
  then show ?thesis by (simp add: prod_eq_iff)
qed

theorem Write_stale_oid_witness:
  "Write io_ok (NewBlobStore 1000) 1 1 1 [0x61] 7
     = (fst (Write io_ok (NewBlobStore 1000) 1 1 1 [0x61] 7), None)
   \<and> (0 :: 64 word) < 1
   \<and> Write io_ok (fst (Write io_ok (NewBlobStore 1000) 1 1 1 [0x61] 7)) 1 0 1 [0x62] 9
       = (fst (Write io_ok (NewBlobStore 1000) 1 1 1 [0x61] 7), Some ErrObjectSmaller)
   \<and> snd (Write io_ok (fst (Write io_ok (NewBlobStore 1000) 1 1 1 [0x61] 7)) 1 1 1 [0x62] 9)
       \<noteq> Some ErrObjectSmaller
   \<and> (\<exists>s2 c2. Write io_ok (fst (Write io_ok (NewBlobStore 1000) 1 1 1 [0x61] 7)) 1 (1 + 1) 1
                  [0x62] 9 = (s2, None)
               \<and> chunks s2 (uint (1 :: 32 word)) = Some c2 \<and> lastOid c2 = 1 + 1)"
proof -
  note t = Write_stale_oid [OF Write_a_fresh, where oid' = 0 and env' = io_ok and sz' = 1
             and data' = "[0x62]" and crc' = 9]
  have p: "(1 :: 64 word) + 1 \<noteq> 0 \<and> (0 :: int) \<le> 1 \<and> 1 \<le> int (length [0x62 :: byte])
            \<and> \<not> statFails io_ok \<and> \<not> writeAtFails io_ok \<and> \<not> idxAppendFails io_ok"
    by simp
  have q: "(0 :: 64 word) < 1" by simp
  from t p q Write_a_fresh show ?thesis by blast
qed

text \<open>
  Claim C2 as stated fails on its second write: after object 1 has been written to the
  empty chunk 1, a second \<open>Write\<close> with object id 1 succeeds, and the chunk's data file
  has grown by the new body.
\<close>

theorem Write_same_oid_counterexample:
  "snd (Write io_ok (fst (Write io_ok (NewBlobStore 1000) 1 1 1 [0x61] 7)) 1 1 1 [0x62] 9) = None
   \<and> map_option dataFile
        (chunks (fst (Write io_ok (fst (Write io_ok (NewBlobStore 1000) 1 1 1 [0x61] 7))
                        1 1 1 [0x62] 9)) 1)
       = Some [0x61, 0x62]"
proof -
  have w: "Write io_ok (NewBlobStore 1000) 1 1 1 [0x61] 7
    = ((NewBlobStore 1000)\<lparr>chunks := (chunks (NewBlobStore 1000))(uint (1 :: 32 word) \<mapsto>
                 NewChunk\<lparr>dataFile := dataFile NewChunk @ take (nat 1) [0x61],
                   tree := fst (tree_set io_ok (tree NewChunk) 1 (word_of_nat (length (dataFile NewChunk)))
                                  (word_of_int 1) 7),
                   lastOid := 1\<rparr>)\<rparr>, None)"
    by (rule Write_ok) (simp_all add: NewBlobStore_chunks NewChunk_def)
  show ?thesis
    unfolding w
    by (simp add: Write_def Let_def tree_set_ok NewChunk_def)
qed

section \<open>Reading beyond the last object id\<close>

text \<open>
  Claim C3, as amended. For every chunk present in the store, \<open>Read\<close> with an object id
  strictly greater than the chunk's \<open>lastOid\<close> fails with \<open>ErrorFileNotFound\<close>, the error
  of an absent chunk, and returns crc 0; the buffer is as it was.
\<close>

theorem Read_beyond_lastOid:
  assumes "chunks s (uint fileId) = Some c"
    and "lastOid c < word_of_int offset"
  shows "Read env s fileId offset sz nbuf = (nbuf, 0, Some ErrorFileNotFound)"
  using assms by (simp add: Read_def)

theorem Read_beyond_lastOid_witness:
  "chunks (NewBlobStore 1000) (uint (1 :: 32 word)) = Some NewChunk
   \<and> lastOid NewChunk < word_of_int 1
   \<and> Read io_ok (NewBlobStore 1000) 1 1 1 [0] = ([0], 0, Some ErrorFileNotFound)"
proof -
  have a: "chunks (NewBlobStore 1000) (uint (1 :: 32 word)) = Some NewChunk"
    by (simp add: NewBlobStore_chunks)
  have b: "lastOid NewChunk < word_of_int 1"
    by (simp add: NewChunk_def)
  show ?thesis using a b Read_beyond_lastOid [OF a b, of io_ok 1 "[0]"] by simp
qed

text \<open>
  Claim C3 as stated names the error of an index-tree miss. On the empty chunk 1, whose
  \<open>lastOid\<close> is 0, a \<open>Read\<close> of object 1 returns \<open>ErrorFileNotFound\<close>, which is another
  error than \<open>ErrorObjNotFound\<close>.
\<close>

theorem Read_beyond_lastOid_counterexample:
  "snd (snd (Read io_ok (NewBlobStore 1000) 1 1 1 [0])) = Some ErrorFileNotFound
   \<and> snd (snd (Read io_ok (NewBlobStore 1000) 1 1 1 [0])) \<noteq> Some ErrorObjNotFound"
  by (simp add: Read_def NewBlobStore_chunks NewChunk_def)

section \<open>Tombstone entries\<close>

lemma unat32_of_nat_mod: "unat (word_of_nat n :: 32 word) = n mod 4294967296"
  by (simp add: unat_of_nat take_bit_eq_mod)

text \<open>
  Claim C10, as amended. For every chunk present in the store, a successful
  \<open>WriteDeleteDentry(objectId, chunkId, crc)\<close> changes that chunk only: it appends exactly
  one record to the chunk's index file, a tombstone (its size is the sentinel) for
  \<open>objectId\<close> with the given crc, whose offset is the current size of the data file modulo
  \<open>2^32\<close>, hence the current size itself whenever the data file is shorter than \<open>2^32\<close>
  bytes; the data file is the same before and after; and \<open>lastOid\<close> becomes \<open>objectId\<close> if
  that is greater and stays otherwise, so it never decreases.
\<close>

theorem WriteDeleteDentry_frame:
  assumes "chunks s chunkId = Some c"
    and "WriteDeleteDentry env s objectId chunkId crc = (s', None)"
  shows "\<exists>c' ob. s' = s\<lparr>chunks := (chunks s)(chunkId \<mapsto> c')\<rparr>
           \<and> idxFile (tree c') = idxFile (tree c) @ [ob]
           \<and> Oid ob = objectId \<and> Size ob = TombstoneFileSize \<and> Crc ob = crc
           \<and> unat (Offset ob) = length (dataFile c) mod 4294967296
           \<and> (length (dataFile c) < 4294967296 \<longrightarrow> unat (Offset ob) = length (dataFile c))
           \<and> dataFile c' = dataFile c
           \<and> lastOid c' = (if lastOid c < objectId then objectId else lastOid c)
           \<and> lastOid c \<le> lastOid c'"
  using assms
  by (auto simp: WriteDeleteDentry_def appendToIdxFile_def Let_def unat32_of_nat_mod
           split: if_splits)

lemma afterHello_chunk:
  "chunks afterHello 1
     = Some \<lparr>dataFile = helloBytes,
             tree = \<lparr>idxFile = [\<lparr>Oid = 1, Offset = 0, Size = 5, Crc = 0x3610A686\<rparr>],
                     entries = [1 \<mapsto> \<lparr>Oid = 1, Offset = 0, Size = 5, Crc = 0x3610A686\<rparr>],
                     fileBytes = 5, deleteBytes = 0\<rparr>,
             lastOid = 1, syncLastOid = 0, compactLock = False\<rparr>"
  by (simp add: afterHello_def Write_def Let_def NewBlobStore_chunks NewChunk_def
        tree_set_def appendToIdxFile_def TombstoneFileSize_def helloBytes_def)

theorem WriteDeleteDentry_frame_witness:
  "chunks afterHello 1
     = Some \<lparr>dataFile = helloBytes,
             tree = \<lparr>idxFile = [\<lparr>Oid = 1, Offset = 0, Size = 5, Crc = 0x3610A686\<rparr>],
                     entries = [1 \<mapsto> \<lparr>Oid = 1, Offset = 0, Size = 5, Crc = 0x3610A686\<rparr>],
                     fileBytes = 5, deleteBytes = 0\<rparr>,
             lastOid = 1, syncLastOid = 0, compactLock = False\<rparr>
   \<and> WriteDeleteDentry io_ok afterHello 3 1 7
       = (fst (WriteDeleteDentry io_ok afterHello 3 1 7), None)
   \<and> (\<exists>c' ob. fst (WriteDeleteDentry io_ok afterHello 3 1 7)
                  = afterHello\<lparr>chunks := (chunks afterHello)(1 \<mapsto> c')\<rparr>
           \<and> idxFile (tree c') = [\<lparr>Oid = 1, Offset = 0, Size = 5, Crc = 0x3610A686\<rparr>, ob]
           \<and> Oid ob = 3 \<and> Size ob = TombstoneFileSize \<and> Crc ob = 7
           \<and> unat (Offset ob) = 5
           \<and> dataFile c' = helloBytes
           \<and> lastOid c' = 3)"
proof -
  let ?c = "\<lparr>dataFile = helloBytes,
             tree = \<lparr>idxFile = [\<lparr>Oid = 1, Offset = 0, Size = 5, Crc = 0x3610A686\<rparr>],
                     entries = [1 \<mapsto> \<lparr>Oid = 1, Offset = 0, Size = 5, Crc = 0x3610A686\<rparr>],
                     fileBytes = 5, deleteBytes = 0\<rparr>,
             lastOid = 1, syncLastOid = 0, compactLock = False\<rparr>"
  have a: "chunks afterHello 1 = Some ?c"
    by (rule afterHello_chunk)
  have b: "WriteDeleteDentry io_ok afterHello 3 1 7
       = (fst (WriteDeleteDentry io_ok afterHello 3 1 7), None)"
    by (simp add: WriteDeleteDentry_def a appendToIdxFile_def Let_def)
  from WriteDeleteDentry_frame [OF a b] obtain c' ob where
    "fst (WriteDeleteDentry io_ok afterHello 3 1 7)
       = afterHello\<lparr>chunks := (chunks afterHello)(1 \<mapsto> c')\<rparr>"
    and "idxFile (tree c') = idxFile (tree ?c) @ [ob]"
    and "Oid ob = 3" "Size ob = TombstoneFileSize" "Crc ob = 7"
    and "length (dataFile ?c) < 4294967296 \<longrightarrow> unat (Offset ob) = length (dataFile ?c)"
    and "dataFile c' = dataFile ?c"
    and "lastOid c' = (if lastOid ?c < 3 then 3 else lastOid ?c)"
    by blast
  then have "fst (WriteDeleteDentry io_ok afterHello 3 1 7)
                  = afterHello\<lparr>chunks := (chunks afterHello)(1 \<mapsto> c')\<rparr>
           \<and> idxFile (tree c') = [\<lparr>Oid = 1, Offset = 0, Size = 5, Crc = 0x3610A686\<rparr>, ob]
           \<and> Oid ob = 3 \<and> Size ob = TombstoneFileSize \<and> Crc ob = 7
           \<and> unat (Offset ob) = 5
           \<and> dataFile c' = helloBytes
           \<and> lastOid c' = 3"
    by (simp add: helloBytes_def)
  with a b show ?thesis by blast
qed

lemma fourGiB_chunk:
  "chunks fourGiB 1
     = Some \<lparr>dataFile = replicate 4294967296 0,
             tree = \<lparr>idxFile = [\<lparr>Oid = 1, Offset = 0, Size = 0, Crc = 7\<rparr>],
                     entries = [1 \<mapsto> \<lparr>Oid = 1, Offset = 0, Size = 0, Crc = 7\<rparr>],
                     fileBytes = 0, deleteBytes = 0\<rparr>,
             lastOid = 1, syncLastOid = 0, compactLock = False\<rparr>"
proof -
  have w: "Write io_ok (NewBlobStore 1000) 1 1 4294967296 (replicate 4294967296 0) 7
    = ((NewBlobStore 1000)\<lparr>chunks := (chunks (NewBlobStore 1000))(uint (1 :: 32 word) \<mapsto>
                 NewChunk\<lparr>dataFile := dataFile NewChunk @ take (nat 4294967296) (replicate 4294967296 0),
                   tree := fst (tree_set io_ok (tree NewChunk) 1 (word_of_nat (length (dataFile NewChunk)))
                                  (word_of_int 4294967296) 7),
                   lastOid := 1\<rparr>)\<rparr>, None)"
    by (rule Write_ok) (simp_all add: NewBlobStore_chunks NewChunk_def)
  have z: "(4294967296 :: 32 word) = 0" by simp
  show ?thesis
    unfolding fourGiB_def w
    by (simp add: tree_set_ok NewChunk_def TombstoneFileSize_def z)
qed

text \<open>
  Claim C10 as stated fails on the offset when the data file has \<open>2^32\<close> bytes or more.
  After a \<open>Write\<close> of \<open>2^32\<close> bytes to the empty chunk 1, the data file has \<open>2^32\<close> bytes,
  and the tombstone that \<open>WriteDeleteDentry\<close> appends for object 2 has offset 0.
\<close>

theorem WriteDeleteDentry_counterexample:
  "snd (WriteDeleteDentry io_ok fourGiB 2 1 0) = None
   \<and> map_option (length \<circ> dataFile) (chunks fourGiB 1) = Some 4294967296
   \<and> map_option (idxFile \<circ> tree) (chunks (fst (WriteDeleteDentry io_ok fourGiB 2 1 0)) 1)
       = Some [\<lparr>Oid = 1, Offset = 0, Size = 0, Crc = 7\<rparr>,
               \<lparr>Oid = 2, Offset = 0, Size = TombstoneFileSize, Crc = 0\<rparr>]"
  by (simp add: WriteDeleteDentry_def fourGiB_chunk appendToIdxFile_def Let_def)

lemma uint64_of_int:
  "0 \<le> k \<Longrightarrow> k < 18446744073709551616 \<Longrightarrow> uint (word_of_int k :: 64 word) = k"
  by (simp add: uint_word_of_int_eq take_bit_int_eq_self)

lemma go_div_nonneg: "0 \<le> a \<Longrightarrow> 0 < b \<Longrightarrow> go_div a b = a div b"
  by (cases "a = 0") (simp_all add: go_div_def)

lemma uint64_scaled:
  fixes w :: "64 word"
  assumes "0 \<le> k" "uint w * k < 18446744073709551616"
  shows "uint ((w * word_of_int k) div 100) = (uint w * k) div 100"
proof -
  have "w * word_of_int k = word_of_int (uint w * k)"
    by simp
  moreover have "0 \<le> uint w * k" using assms by simp
  ultimately have "uint (w * word_of_int k) = uint w * k"
    using assms by (simp only: uint64_of_int)
  then show ?thesis by (simp add: uint_div)
qed

section \<open>The compaction trigger\<close>

text \<open>
  Claim C8, as amended. Let the chunk be present, the store size be non-negative, and the
  products \<open>(storeSize / 10) * 40\<close> and \<open>fileBytes * thresh'\<close> stay below \<open>2^64\<close>, where
  \<open>thresh'\<close> is 40 for a negative \<open>thresh\<close> and \<open>thresh\<close> otherwise. Then
  \<open>IsReadyToCompact\<close> answers \<open>true\<close> exactly when
  \<open>fileBytes \<ge> (storeSize / 10) * 40 / 100\<close> and \<open>deleteBytes \<ge> fileBytes * thresh' / 100\<close>
  over the integers with integer division, and \<open>false\<close> otherwise; in every case the
  second result is what the floating-point division gives for \<open>deleteBytes\<close> and
  \<open>fileBytes\<close>, whatever that division is.
\<close>

theorem IsReadyToCompact_trigger:
  assumes present: "chunks s chunkID = Some c"
    and size: "0 \<le> storeSize s" "(storeSize s div 10) * 40 < 18446744073709551616"
    and prod: "uint (fileBytes (tree c)) * (if thresh < 0 then 40 else thresh)
                 < 18446744073709551616"
  shows "IsReadyToCompact fdiv s chunkID thresh
           = Inr (IsReadyToCompact_spec (unat (fileBytes (tree c))) (unat (deleteBytes (tree c)))
                    (storeSize s) thresh,
                  fdiv (deleteBytes (tree c)) (fileBytes (tree c)))"
proof -
  define t where "t = (if thresh < 0 then 40 else thresh)"
  have t0: "0 \<le> t" by (simp add: t_def)
  have M: "go_div (storeSize s) TinyChunkCount = storeSize s div 10"
    using size by (simp add: go_div_nonneg TinyChunkCount_def)
  have M0: "0 \<le> storeSize s div 10" using size by simp
  then have uM: "uint (word_of_int (storeSize s div 10) :: 64 word) = storeSize s div 10"
    using size by (intro uint64_of_int) simp_all
  have A: "uint (((word_of_int (storeSize s div 10) :: 64 word) * word_of_int 40) div 100)
             = ((storeSize s div 10) * 40) div 100"
    using uint64_scaled [of 40 "word_of_int (storeSize s div 10)"] size uM by simp
  have B: "uint ((fileBytes (tree c) * word_of_int t) div 100)
             = (uint (fileBytes (tree c)) * t) div 100"
    using uint64_scaled [OF t0, of "fileBytes (tree c)"] prod by (simp add: t_def)
  have c1: "(fileBytes (tree c)
               < (word_of_int (go_div (storeSize s) TinyChunkCount) * word_of_int CompactThreshold)
                   div 100)
             = (int (unat (fileBytes (tree c))) < ((storeSize s div 10) * 40) div 100)"
    unfolding M CompactThreshold_def word_less_def A by (simp only: uint_nat)
  have c2: "(deleteBytes (tree c)
               < (fileBytes (tree c)
                    * word_of_int (if thresh < 0 then CompactThreshold else thresh)) div 100)
             = (int (unat (deleteBytes (tree c))) < (int (unat (fileBytes (tree c))) * t) div 100)"
  proof -
    have eq: "(if thresh < 0 then CompactThreshold else thresh) = t"
      by (simp add: t_def CompactThreshold_def)
    show ?thesis
      unfolding eq word_less_def B by (simp only: uint_nat)
  qed
  have "IsReadyToCompact fdiv s chunkID thresh
          = (if int (unat (fileBytes (tree c))) < ((storeSize s div 10) * 40) div 100
             then Inr (False, fdiv (deleteBytes (tree c)) (fileBytes (tree c)))
             else if int (unat (deleteBytes (tree c)))
                       < (int (unat (fileBytes (tree c))) * t) div 100
             then Inr (False, fdiv (deleteBytes (tree c)) (fileBytes (tree c)))
             else Inr (True, fdiv (deleteBytes (tree c)) (fileBytes (tree c))))"
    unfolding IsReadyToCompact_def Let_def
    by (simp only: present option.case c1 c2)
  also have "\<dots> = Inr (IsReadyToCompact_spec (unat (fileBytes (tree c)))
                          (unat (deleteBytes (tree c))) (storeSize s) thresh,
                        fdiv (deleteBytes (tree c)) (fileBytes (tree c)))"
    unfolding IsReadyToCompact_spec_def Let_def t_def [symmetric]
    by (simp only: not_less [symmetric] if_not_P if_P split: if_split) auto
  finally show ?thesis .
qed


theorem IsReadyToCompact_trigger_witness:
  "chunks halfDeleted 1
     = Some (NewChunk\<lparr>tree := (tree NewChunk)\<lparr>fileBytes := 100, deleteBytes := 50\<rparr>\<rparr>)
   \<and> 0 \<le> storeSize halfDeleted
   \<and> (storeSize halfDeleted div 10) * 40 < 18446744073709551616
   \<and> IsReadyToCompact Pair halfDeleted 1 (- 1) = Inr (True, (50, 100))
   \<and> IsReadyToCompact Pair halfDeleted 1 60 = Inr (False, (50, 100))"
proof -
  let ?c = "NewChunk\<lparr>tree := (tree NewChunk)\<lparr>fileBytes := 100, deleteBytes := 50\<rparr>\<rparr>"
  have a: "chunks halfDeleted 1 = Some ?c"
    by (simp add: halfDeleted_def)
  have b: "0 \<le> storeSize halfDeleted"
    and c: "(storeSize halfDeleted div 10) * 40 < 18446744073709551616"
    by (simp_all add: halfDeleted_def NewBlobStore_def)
  have d1: "uint (fileBytes (tree ?c)) * (if (- 1 :: int) < 0 then 40 else - 1)
              < 18446744073709551616"
    by simp
  have d2: "uint (fileBytes (tree ?c)) * (if (60 :: int) < 0 then 40 else 60)
              < 18446744073709551616"
    by simp
  have s: "storeSize halfDeleted = 1000"
    by (simp add: halfDeleted_def NewBlobStore_def)
  have e1: "IsReadyToCompact Pair halfDeleted 1 (- 1) = Inr (True, (50, 100))"
    using IsReadyToCompact_trigger [OF a b c d1, of Pair]
    by (simp add: IsReadyToCompact_spec_def s)
  have e2: "IsReadyToCompact Pair halfDeleted 1 60 = Inr (False, (50, 100))"
    using IsReadyToCompact_trigger [OF a b c d2, of Pair]
    by (simp add: IsReadyToCompact_spec_def s)
  from a b c e1 e2 show ?thesis by blast
qed

text \<open>
  Claim C8 as stated, read over the integers, fails where the product
  \<open>fileBytes * thresh\<close> leaves 64 bits. With a store size of 1000, 64 live bytes, no deleted
  byte and \<open>thresh = 2^58\<close>, the product wraps around to 0 and the function answers
  \<open>true\<close>, while \<open>0 \<ge> 64 * 2^58 / 100\<close> is false. (The division is instantiated
  with pairing, which shows its two arguments.)
\<close>

theorem IsReadyToCompact_counterexample:
  "IsReadyToCompact Pair noneDeleted 1 288230376151711744 = Inr (True, (0, 64))
   \<and> \<not> IsReadyToCompact_spec 64 0 1000 288230376151711744"
  by (simp add: IsReadyToCompact_def noneDeleted_def NewBlobStore_def NewChunk_def Let_def
        go_div_def TinyChunkCount_def CompactThreshold_def
        IsReadyToCompact_spec_def)

section \<open>Deleted objects\<close>

lemma WalkIndexFile_collect:
  "fst (WalkIndexFile idx
          (\<lambda>ob objects.
             if L < Oid ob then (objects, Some ExceedSyncLastOid)
             else if Size ob = TombstoneFileSize then (objects @ [Oid ob], None)
             else (objects, None))
          acc)
     = acc @ map Oid (filter (\<lambda>r. Size r = TombstoneFileSize)
                        (takeWhile (\<lambda>r. Oid r \<le> L) idx))"
  by (induction idx arbitrary: acc) (auto simp: not_less)

text \<open>
  Claim C7, as amended. For every chunk present in the store, \<open>GetDelObjects\<close> records
  \<open>syncLastOid = lastOid\<close> and changes nothing else; it walks the index file in append
  order up to, and without, the first record whose object id exceeds \<open>syncLastOid\<close>, and
  returns the object id of every tombstone record of that prefix, in append order, once
  per tombstone record, whether or not a later record of the same object id follows.
\<close>

theorem GetDelObjects_scan:
  assumes "chunks s (uint fileId) = Some c"
  shows "GetDelObjects s fileId
           = (s\<lparr>chunks := (chunks s)(uint fileId \<mapsto> c\<lparr>syncLastOid := lastOid c\<rparr>)\<rparr>,
              map Oid (filter (\<lambda>r. Size r = TombstoneFileSize)
                         (takeWhile (\<lambda>r. Oid r \<le> lastOid c) (idxFile (tree c)))))"
  using assms by (simp add: GetDelObjects_def Let_def WalkIndexFile_collect)

lemma deletedThenRewritten_chunk:
  "chunks deletedThenRewritten 1
     = Some \<lparr>dataFile = [0x61],
             tree = \<lparr>idxFile = [\<lparr>Oid = 5, Offset = 0, Size = TombstoneFileSize, Crc = 0\<rparr>,
                                \<lparr>Oid = 5, Offset = 0, Size = 1, Crc = 0xE8B7BE43\<rparr>],
                     entries = [5 \<mapsto> \<lparr>Oid = 5, Offset = 0, Size = 1, Crc = 0xE8B7BE43\<rparr>],
                     fileBytes = 1, deleteBytes = 0\<rparr>,
             lastOid = 5, syncLastOid = 0, compactLock = False\<rparr>"
  by (simp add: deletedThenRewritten_def WriteDeleteDentry_def Write_def Let_def
        NewBlobStore_chunks NewChunk_def appendToIdxFile_def tree_set_def
        TombstoneFileSize_def)

theorem GetDelObjects_scan_witness:
  "chunks deletedThenRewritten (uint (1 :: 32 word))
     = Some \<lparr>dataFile = [0x61],
             tree = \<lparr>idxFile = [\<lparr>Oid = 5, Offset = 0, Size = TombstoneFileSize, Crc = 0\<rparr>,
                                \<lparr>Oid = 5, Offset = 0, Size = 1, Crc = 0xE8B7BE43\<rparr>],
                     entries = [5 \<mapsto> \<lparr>Oid = 5, Offset = 0, Size = 1, Crc = 0xE8B7BE43\<rparr>],
                     fileBytes = 1, deleteBytes = 0\<rparr>,
             lastOid = 5, syncLastOid = 0, compactLock = False\<rparr>
   \<and> snd (GetDelObjects deletedThenRewritten 1) = [5]"
proof -
  have a: "chunks deletedThenRewritten (uint (1 :: 32 word))
     = Some \<lparr>dataFile = [0x61],
             tree = \<lparr>idxFile = [\<lparr>Oid = 5, Offset = 0, Size = TombstoneFileSize, Crc = 0\<rparr>,
                                \<lparr>Oid = 5, Offset = 0, Size = 1, Crc = 0xE8B7BE43\<rparr>],
                     entries = [5 \<mapsto> \<lparr>Oid = 5, Offset = 0, Size = 1, Crc = 0xE8B7BE43\<rparr>],
                     fileBytes = 1, deleteBytes = 0\<rparr>,
             lastOid = 5, syncLastOid = 0, compactLock = False\<rparr>"
    by (simp add: deletedThenRewritten_chunk)
  have "snd (GetDelObjects deletedThenRewritten 1) = [5]"
    unfolding GetDelObjects_scan [OF a] by (simp add: TombstoneFileSize_def)
  with a show ?thesis by blast
qed

text \<open>
  Claim C7 as stated fails when a tombstone is followed by a live record of the same
  object id. After \<open>WriteDeleteDentry\<close> for object 5 and then a \<open>Write\<close> of object 5 to
  chunk 1, the last record of object 5 in the index file is live, so no object id has a
  tombstone as its last record; \<open>GetDelObjects\<close> returns object 5 all the same.
\<close>

theorem GetDelObjects_counterexample:
  "snd (GetDelObjects deletedThenRewritten 1) = [5]
   \<and> map_option (idxFile \<circ> tree) (chunks deletedThenRewritten 1)
       = Some [\<lparr>Oid = 5, Offset = 0, Size = TombstoneFileSize, Crc = 0\<rparr>,
               \<lparr>Oid = 5, Offset = 0, Size = 1, Crc = 0xE8B7BE43\<rparr>]
   \<and> map_option lastOid (chunks deletedThenRewritten 1) = Some 5
   \<and> GetDelObjects_spec [\<lparr>Oid = 5, Offset = 0, Size = TombstoneFileSize, Crc = 0\<rparr>,
                          \<lparr>Oid = 5, Offset = 0, Size = 1, Crc = 0xE8B7BE43\<rparr>] 5 = []"
  by (simp add: GetDelObjects_def deletedThenRewritten_chunk Let_def TombstoneFileSize_def
        GetDelObjects_spec_def lastRecord_def)

section \<open>Asking for a chunk to write to\<close>

text \<open>
  Claim C9 fails on the code. On a new store every chunk id is in the unavailable queue
  and the available queue is empty; \<open>GetChunkForWrite\<close> then returns chunk id 0 and no
  error, where \<open>GetAvailChunk\<close> returns \<open>ErrorNoAvaliFile\<close>.
\<close>

theorem GetChunkForWrite_empty_queue:
  "GetChunkForWrite (NewBlobStore n) = (NewBlobStore n, 0, None)"
  by (simp add: GetChunkForWrite_def NewBlobStore_def)

lemma GetChunkForWrite_empty:
  "availChunkCh s = [] \<Longrightarrow> GetChunkForWrite s = (s, 0, None)"
  by (simp add: GetChunkForWrite_def)

lemma GetAvailChunk_empty:
  "availChunkCh s = [] \<Longrightarrow> GetAvailChunk s = (s, 0, Some ErrorNoAvaliFile)"
  by (simp add: GetAvailChunk_def)

lemma GetChunkForWrite_nonempty:
  "availChunkCh s = i # rest \<Longrightarrow> GetChunkForWrite s = (s\<lparr>availChunkCh := rest\<rparr>, i, None)"
  by (simp add: GetChunkForWrite_def)

section \<open>Applying a repair packet\<close>

text \<open>
  Claim C5 fails on the code. The payload \<open>tombThenLive\<close> holds a tombstone header for
  object 1 and, directly after it, object 2 with its body. \<open>applyRepairBlobObjects\<close>
  writes the tombstone entry and then takes the sentinel size for a body length; no such
  body is there, so it returns, with the error \<open>nil\<close> annotated, that is \<open>nil\<close>. The
  store is the one \<open>WriteDeleteDentry\<close> left: object 2 has not been decoded.
\<close>

theorem apply_stops_at_tombstone:
  "applyRepairBlobObjects io_ok (NewBlobStore 1000) 1 tombThenLive 2
     = (fst (WriteDeleteDentry io_ok (NewBlobStore 1000) 1 1 0), None)"
  by (simp add: applyRepairBlobObjects_def tombThenLive_def ObjectHeaderSize_def Let_def
        Unmarshal_def be_word_def TombstoneFileSize_def WriteDeleteDentry_def
        NewBlobStore_chunks NewChunk_def appendToIdxFile_def Annotatef_def)

text \<open>The same for every payload shorter than the sentinel: after a tombstone header the
  loop ends, whatever follows the header.\<close>

lemma applyLoop_tombstone:
  assumes "offset + ObjectHeaderSize \<le> length data"
    and "applyObjectId < endObjectId"
    and "Size (Unmarshal (take ObjectHeaderSize (drop offset data))) = TombstoneFileSize"
    and "length data < offset + ObjectHeaderSize + 4294967295"
  shows "applyLoop env s blobfileId data endObjectId offset applyObjectId
           = (fst (WriteDeleteDentry env s
                     (Oid (Unmarshal (take ObjectHeaderSize (drop offset data)))) blobfileId
                     (Crc (Unmarshal (take ObjectHeaderSize (drop offset data))))),
              Annotatef (snd (WriteDeleteDentry env s
                     (Oid (Unmarshal (take ObjectHeaderSize (drop offset data)))) blobfileId
                     (Crc (Unmarshal (take ObjectHeaderSize (drop offset data)))))))"
proof -
  have u: "unat TombstoneFileSize = 4294967295"
    by (simp add: TombstoneFileSize_def)
  have n1: "\<not> length data < offset + ObjectHeaderSize"
    and n2: "\<not> endObjectId \<le> applyObjectId"
    and n3: "length data < offset + ObjectHeaderSize + unat TombstoneFileSize"
    using assms by (simp_all add: u not_le)
  show ?thesis
    by (subst applyLoop.simps)
       (simp add: Let_def n1 n2 n3 assms(3) Annotatef_def del: applyLoop.simps
             split: option.splits)
qed

text \<open>
  Claim C6 fails on the code. The payload \<open>badCrc\<close> holds object 1 with the body ``a'',
  whose checksum is \<open>0xE8B7BE43\<close>, under a header whose crc field is 0.
  \<open>applyRepairBlobObjects\<close> does not write the object, and returns the error \<open>nil\<close>
  annotated, that is \<open>nil\<close>: the caller sees a success.
\<close>

theorem apply_crc_mismatch_returns_nil:
  "ChecksumIEEE [0x61] \<noteq> Crc (Unmarshal (take ObjectHeaderSize badCrc))
   \<and> applyRepairBlobObjects io_ok (NewBlobStore 1000) 1 badCrc 1 = (NewBlobStore 1000, None)"
  by (simp add: applyRepairBlobObjects_def badCrc_def ObjectHeaderSize_def Let_def
        Unmarshal_def be_word_def TombstoneFileSize_def ChecksumIEEE_a Annotatef_def)

text \<open>The same for every object whose body is in the payload and whose checksum differs
  from the header's: the loop ends there, the store is as it was and the result is
  \<open>nil\<close>.\<close>

lemma applyLoop_crc_mismatch:
  assumes "offset + ObjectHeaderSize \<le> length data"
    and "applyObjectId < endObjectId"
    and "Size (Unmarshal (take ObjectHeaderSize (drop offset data))) \<noteq> TombstoneFileSize"
    and "offset + ObjectHeaderSize
           + unat (Size (Unmarshal (take ObjectHeaderSize (drop offset data)))) \<le> length data"
    and "ChecksumIEEE (take (unat (Size (Unmarshal (take ObjectHeaderSize (drop offset data)))))
                         (drop (offset + ObjectHeaderSize) data))
           \<noteq> Crc (Unmarshal (take ObjectHeaderSize (drop offset data)))"
  shows "applyLoop env s blobfileId data endObjectId offset applyObjectId = (s, None)"
proof -
  have n1: "\<not> length data < offset + ObjectHeaderSize"
    and n2: "\<not> endObjectId \<le> applyObjectId"
    and n3: "\<not> length data < offset + ObjectHeaderSize
               + unat (Size (Unmarshal (take ObjectHeaderSize (drop offset data))))"
    using assms by (simp_all add: not_le not_less)
  show ?thesis
    by (subst applyLoop.simps)
       (simp add: Let_def n1 n2 n3 assms(3) assms(5) Annotatef_def del: applyLoop.simps)
qed

text \<open>With the right checksum the two objects of \<open>twoObjects\<close> are written by \<open>Write\<close>,
  each with the object id, size and crc of its header.\<close>

lemma apply_twoObjects:
  "applyRepairBlobObjects io_ok (NewBlobStore 1000) 10 twoObjects 2
     = (fst (Write io_ok (fst (Write io_ok (NewBlobStore 1000) 10 1 1 [0x61] 0xE8B7BE43))
               10 2 1 [0x61] 0xE8B7BE43), None)"
proof -
  have n: "\<not> (2 :: 64 word) \<le> 1"
    by (simp add: word_le_def)
  show ?thesis
    by (simp add: applyRepairBlobObjects_def twoObjects_def ObjectHeaderSize_def Let_def
          Unmarshal_def be_word_def TombstoneFileSize_def ChecksumIEEE_a Annotatef_def
          Write_def NewBlobStore_chunks NewChunk_def tree_set_def appendToIdxFile_def n)
qed

section \<open>Streaming repair\<close>

text \<open>
  Claim C4 fails on the code. The remote replica reports chunk 1 with last object id 2,
  the local chunk 1 is empty, and the response packet carries objects 1 and 2 with
  offset field 2, which does not exceed the remote watermark.
  \<open>streamRepairBlobObjects\<close> compares the offset with the chunk id 1, not with the
  watermark, and aborts with the invalid-offset error before anything is applied.
\<close>

theorem streamRepair_rejects_valid_offset:
  "streamRepairBlobObjects io_ok (netWith [\<lparr>Packet.Offset = 2, Data = twoObjects\<rparr>])
     (NewBlobStore 1000) \<lparr>FileId = 1, Size = 2\<rparr>
     = (NewBlobStore 1000, Some InvalidOffset)"
  by (simp add: streamRepairBlobObjects_def netWith_def GetWatermark_def
        NewBlobStore_chunks NewChunk_def Let_def)

text \<open>The other way round: for chunk 10 with remote watermark 1, a packet whose offset
  field is 2 exceeds the watermark, and is applied, because 2 does not exceed 10.\<close>

lemma streamRepair_accepts_invalid_offset:
  "streamRepairBlobObjects io_ok (netWith [\<lparr>Packet.Offset = 2, Data = twoObjects\<rparr>])
     (NewBlobStore 1000) \<lparr>FileId = 10, Size = 1\<rparr>
     = (fst (Write io_ok (fst (Write io_ok (NewBlobStore 1000) 10 1 1 [0x61] 0xE8B7BE43))
               10 2 1 [0x61] 0xE8B7BE43), None)"
proof -
  have w: "GetWatermark (NewBlobStore 1000) 10 = Inr \<lparr>FileId = 10, Size = 0\<rparr>"
    by (simp add: GetWatermark_def NewBlobStore_chunks NewChunk_def)
  have w2: "GetWatermark (fst (Write io_ok (fst (Write io_ok (NewBlobStore 1000) 10 1 1 [0x61]
                0xE8B7BE43)) 10 2 1 [0x61] 0xE8B7BE43)) 10 = Inr \<lparr>FileId = 10, Size = 2\<rparr>"
    by (simp add: GetWatermark_def Write_def NewBlobStore_chunks NewChunk_def Let_def
          tree_set_def appendToIdxFile_def)
  show ?thesis
    by (simp add: streamRepairBlobObjects_def netWith_def w w2 apply_twoObjects)
qed

text \<open>In general the loop lets a packet through exactly when its offset field does not
  exceed the chunk id.\<close>

lemma repairLoop_check:
  assumes "GetWatermark s (word_of_int (FileId remote)) = Inr localInfo"
    and "FileInfo.Size localInfo < FileInfo.Size remote"
  shows "repairLoop env s remote (request # rest)
           = (if (word_of_int (FileId remote) :: 64 word) < word_of_int (Packet.Offset request)
              then (s, Some InvalidOffset)
              else if snd (applyRepairBlobObjects env s (FileId remote) (Data request)
                             (word_of_int (Packet.Offset request))) = None
              then repairLoop env
                     (fst (applyRepairBlobObjects env s (FileId remote) (Data request)
                             (word_of_int (Packet.Offset request)))) remote rest
              else (fst (applyRepairBlobObjects env s (FileId remote) (Data request)
                             (word_of_int (Packet.Offset request))),
                    Annotatef (snd (applyRepairBlobObjects env s (FileId remote) (Data request)
                             (word_of_int (Packet.Offset request))))))"
proof -
  have n: "\<not> FileInfo.Size remote \<le> FileInfo.Size localInfo"
    using assms(2) by (simp add: not_le)
  show ?thesis
    by (subst repairLoop.simps) (simp add: Let_def assms(1) n del: repairLoop.simps)
qed

end
